theory Spec2Isabelle
  imports Main
begin

section \<open>The markdown editor's file bridge\<close>

text \<open>
  The editor has one privileged (main) process and one rendering surface (React
  component \<open>App\<close>) per window. They talk over named IPC channels. The main
  process keeps two module-level tables: \<open>openWindows\<close> (a \<open>Set\<close>) and
  \<open>windowFilePaths\<close> (a \<open>WeakMap\<close> from window object to path).

  Everything the main process does to the outside world (native dialogs, file
  reads and writes, messages to a window) is recorded as a list of effects, in
  program order. What the outside world answers (which window a sender belongs
  to, what the user picked in a dialog, whether a read or write failed) is an
  input of the model, collected in the record \<open>electron\<close>.

  \<open>fs.readFile\<close> and \<open>fs.writeFile\<close> take a callback. Each callback is a
  definition of its own, taking the outcome of the operation; the function that
  dispatches the operation is modelled as running its callback next, while the
  window still exists, with no other listener in between.
\<close>

subsection \<open>Values crossing the bridge\<close>

text \<open>A window is a \<open>BrowserWindow\<close> object; the number is its object identity,
  which the language gives and no two objects share. A sender is the
  \<open>webContents\<close> identity an IPC event came from; it is the runtime's to give
  and the runtime may give it again.\<close>

type_synonym win = nat
type_synonym webContents = nat

text \<open>Channels from the main process to a window. \<open>save-status\<close> is sent
  with one argument or with three; a missing argument is \<open>None\<close>
  (JavaScript \<open>undefined\<close>).\<close>

datatype message =
    FileContentReady string string string
  | SaveStatus string "string option" "string option"
  | MenuOpenFile
  | MenuSaveFile
  | MenuExportHtml

text \<open>Channels from a window to the main process (the preload script's API).\<close>

datatype request =
    OpenFileDialog
  | SaveFileRequest string "string option"
  | OverwriteFileRequest string string
  | NewWindowRequest
  | UpdateWindowTitle string

datatype effect =
    NewBrowserWindow win
  | LoadURL win
  | ShowOpenDialog win
  | ShowSaveDialog win "string option"
  | FsReadFile string
  | FsWriteFile string string
  | ConsoleError string string
  | Send win message
  | SetTitle win string

text \<open>JavaScript truthiness of a value that is a string, \<open>null\<close> or
  \<open>undefined\<close>: only a non-empty string is truthy.\<close>

fun truthy :: "string option \<Rightarrow> bool" where
  "truthy None = False"
| "truthy (Some p) = (p \<noteq> [])"

text \<open>
  Modelled from the spec: \<open>path.basename\<close> belongs to Node's \<open>path\<close> module, not
  to this repository. The spec calls its result the path's final path segment.
  This is the POSIX variant: trailing separators are skipped, then everything
  after the last remaining separator is returned.
\<close>

definition basename :: "string \<Rightarrow> string" where
  "basename p =
     rev (takeWhile (\<lambda>c. c \<noteq> CHR ''/'') (dropWhile (\<lambda>c. c = CHR ''/'') (rev p)))"

subsection \<open>The main process\<close>

text \<open>
  The two module-level tables, and the number of \<open>BrowserWindow\<close> objects made
  so far. \<open>new BrowserWindow\<close> always makes an object that did not exist
  before: the objects made so far are \<open>0, ..., allocated - 1\<close> and the next one
  is \<open>allocated\<close>. The \<open>WeakMap\<close> is a map from object identity to path; no
  code of the main process ever deletes from it or reads it.
\<close>

record main_state =
  openWindows :: "win set"
  windowFilePaths :: "win \<rightharpoonup> string"
  allocated :: nat

text \<open>
  The answers of the runtime. \<open>fromWebContents\<close> is
  \<open>BrowserWindow.fromWebContents\<close> (\<open>None\<close> for \<open>null\<close>); \<open>showOpenDialogSync\<close> and
  \<open>showSaveDialogSync\<close> are what the user chose (\<open>None\<close> for \<open>undefined\<close>);
  \<open>readFile\<close> gives \<open>Inl err.message\<close> or \<open>Inr data\<close>; \<open>writeFile\<close> gives
  \<open>Some err.message\<close> on failure.
\<close>

record electron =
  fromWebContents :: "webContents \<Rightarrow> win option"
  showOpenDialogSync :: "string list option"
  showSaveDialogSync :: "string option"
  readFile :: "string \<Rightarrow> string + string"
  writeFile :: "string \<Rightarrow> string \<Rightarrow> string option"

definition createWindow :: "main_state \<Rightarrow> win \<times> main_state \<times> effect list" where
  "createWindow s =
     (let newWindow = allocated s in
      (newWindow,
       s\<lparr>openWindows := insert newWindow (openWindows s), allocated := Suc (allocated s)\<rparr>,
       [NewBrowserWindow newWindow, LoadURL newWindow]))"


text \<open>The callback \<open>openFile\<close> hands to \<open>fs.readFile\<close>.\<close>

definition openFile_callback ::
  "win \<Rightarrow> string \<Rightarrow> string + string \<Rightarrow> main_state \<Rightarrow> main_state \<times> effect list" where
  "openFile_callback window filePath result s =
     (case result of
        Inl err \<Rightarrow>
          (s, [ConsoleError ''Failed to read file:'' err,
               Send window (SaveStatus (''Error loading file: '' @ err) None None)])
      | Inr data \<Rightarrow>
          (let displayFileName = basename filePath in
           (s\<lparr>windowFilePaths := (windowFilePaths s)(window \<mapsto> filePath)\<rparr>,
            [Send window (FileContentReady data displayFileName filePath)])))"

definition openFile ::
  "electron \<Rightarrow> win \<Rightarrow> string \<Rightarrow> main_state \<Rightarrow> main_state \<times> effect list" where
  "openFile rt window filePath s =
     (let (s', es) = openFile_callback window filePath (readFile rt filePath) s
      in (s', FsReadFile filePath # es))"

definition getFileFromUser ::
  "electron \<Rightarrow> win option \<Rightarrow> main_state \<Rightarrow> main_state \<times> effect list" where
  "getFileFromUser rt window s =
     (case window of
        None \<Rightarrow> (s, [])
      | Some w \<Rightarrow>
          (case showOpenDialogSync rt of
             Some (file # files) \<Rightarrow>
               (let (s', es) = openFile rt w file s in (s', ShowOpenDialog w # es))
           | _ \<Rightarrow> (s, [ShowOpenDialog w])))"

text \<open>The callback \<open>saveFileToUser\<close> hands to \<open>fs.writeFile\<close>.\<close>

definition saveFileToUser_callback ::
  "win \<Rightarrow> string \<Rightarrow> string option \<Rightarrow> main_state \<Rightarrow> main_state \<times> effect list" where
  \<open>saveFileToUser_callback window filePath result s =
     (case result of
        Some err \<Rightarrow>
          (s, [ConsoleError ''Failed to save file:'' err,
               Send window (SaveStatus (''Error saving file: '' @ err) None None)])
      | None \<Rightarrow>
          (let displayFileName = basename filePath in
           (s\<lparr>windowFilePaths := (windowFilePaths s)(window \<mapsto> filePath)\<rparr>,
            [Send window
               (SaveStatus (''File successfully saved as "'' @ displayFileName @ ''"'')
                  (Some filePath) (Some displayFileName))])))\<close>

definition saveFileToUser ::
  "electron \<Rightarrow> win option \<Rightarrow> string \<Rightarrow> string option \<Rightarrow> main_state
     \<Rightarrow> main_state \<times> effect list" where
  "saveFileToUser rt window content defaultFileName s =
     (case window of
        None \<Rightarrow> (s, [])
      | Some w \<Rightarrow>
          (let filePath = showSaveDialogSync rt in
           if truthy filePath then
             (let (s', es) =
                    saveFileToUser_callback w (the filePath)
                      (writeFile rt (the filePath) content) s
              in (s', ShowSaveDialog w defaultFileName
                        # FsWriteFile (the filePath) content # es))
           else
             (s, [ShowSaveDialog w defaultFileName,
                  Send w (SaveStatus ''Save As operation cancelled.'' None None)])))"

text \<open>The callback \<open>overwriteFile\<close> hands to \<open>fs.writeFile\<close>.\<close>

definition overwriteFile_callback ::
  "win \<Rightarrow> string \<Rightarrow> string option \<Rightarrow> main_state \<Rightarrow> main_state \<times> effect list" where
  \<open>overwriteFile_callback window fullPath result s =
     (case result of
        Some err \<Rightarrow>
          (s, [ConsoleError ''Failed to overwrite file:'' err,
               Send window (SaveStatus (''Error overwriting file: '' @ err) None None)])
      | None \<Rightarrow>
          (let displayFileName = basename fullPath in
           (s, [Send window
                  (SaveStatus (''File successfully saved to "'' @ displayFileName @ ''"'')
                     None None)])))\<close>

definition overwriteFile ::
  "electron \<Rightarrow> win option \<Rightarrow> string \<Rightarrow> string \<Rightarrow> main_state
     \<Rightarrow> main_state \<times> effect list" where
  "overwriteFile rt window content fullPath s =
     (case window of
        None \<Rightarrow> (s, [])
      | Some w \<Rightarrow>
          (let (s', es) = overwriteFile_callback w fullPath (writeFile rt fullPath content) s
           in (s', FsWriteFile fullPath content # es)))"

text \<open>The module-level tables as the script creates them: an empty \<open>Set\<close> and an
  empty \<open>WeakMap\<close>; no window has been made yet.\<close>

definition initial_main :: main_state where
  "initial_main = \<lparr>openWindows = {}, windowFilePaths = Map.empty, allocated = 0\<rparr>"

text \<open>The five listeners \<open>initializeIpcHandlers\<close> registers on \<open>ipcMain\<close>.\<close>

fun ipcMain_on ::
  "electron \<Rightarrow> webContents \<Rightarrow> request \<Rightarrow> main_state \<Rightarrow> main_state \<times> effect list" where
  "ipcMain_on rt sender OpenFileDialog s =
     getFileFromUser rt (fromWebContents rt sender) s"
| "ipcMain_on rt sender (SaveFileRequest content defaultFileName) s =
     saveFileToUser rt (fromWebContents rt sender) content defaultFileName s"
| "ipcMain_on rt sender (OverwriteFileRequest content fullPath) s =
     overwriteFile rt (fromWebContents rt sender) content fullPath s"
| "ipcMain_on rt sender NewWindowRequest s =
     (let (newWindow, s', es) = createWindow s in (s', es))"
| "ipcMain_on rt sender (UpdateWindowTitle title) s =
     (case fromWebContents rt sender of
        Some window \<Rightarrow> (s, [SetTitle window title])
      | None \<Rightarrow> (s, []))"

text \<open>The messages a list of effects delivers to one window, in order:
  \<open>window.webContents.send\<close> reaches the renderer of \<open>window\<close> and no other.\<close>

fun sent_to :: "win \<Rightarrow> effect list \<Rightarrow> message list" where
  "sent_to w [] = []"
| "sent_to w (Send w' m # es) = (if w' = w then m # sent_to w es else sent_to w es)"
| "sent_to w (e # es) = sent_to w es"

fun is_write :: "effect \<Rightarrow> bool" where
  "is_write (FsWriteFile p c) = True"
| "is_write e = False"

fun is_dialog :: "effect \<Rightarrow> bool" where
  "is_dialog (ShowOpenDialog w) = True"
| "is_dialog (ShowSaveDialog w d) = True"
| "is_dialog e = False"

subsection \<open>The rendering surface\<close>

text \<open>
  The React state of component \<open>App\<close>. \<open>fileName\<close> is the full path the
  surface knows, \<open>None\<close> for \<open>null\<close>; \<open>displayFileName\<close> is \<open>None\<close> for
  \<open>undefined\<close>, which \<open>handleSaveStatus\<close> can store.
\<close>

record app_state =
  markedText :: string
  htmlMarkup :: string
  fileName :: "string option"
  displayFileName :: "string option"
  saveStatus :: "string option"

datatype js_error = TypeError

definition newline :: string where
  "newline = [CHR 0x0A]"

definition defaultMarkdown :: string where
  "defaultMarkdown =
     ''# Welcome to the Secure Markdown Editor'' @ newline @
     ''    ---'' @ newline @
     ''    This is an **Electron + React** app using a secure IPC bridge.'' @ newline @
     newline @
     ''    ### Multi-Window Ready!'' @ newline @
     ''    * Click '' @ [CHR 0x27, CHR 0xE2, CHR 0x9E, CHR 0x95] @ '' New Window'' @ [CHR 0x27] @
     '' below or use the Window menu to open another isolated editor.'' @ newline @
     ''    * File operations (Open/Save) are now completely separate for each window.'' @ newline @
     newline @
     ''    ```javascript'' @ newline @
     ''    // Example code block'' @ newline @
     ''    const greet = (name) => {'' @ newline @
     ''        return `Hello, ${name}!`;'' @ newline @
     ''    };'' @ newline @
     ''    ```'' @ newline @
     ''    ''"

text \<open>The initial values of the \<open>useState\<close> hooks: what a new surface starts from.\<close>

definition initial_app :: app_state where
  "initial_app =
     \<lparr>markedText = defaultMarkdown, htmlMarkup = [], fileName = None,
      displayFileName = Some ''Untitled.md'', saveStatus = None\<rparr>"

text \<open>
  \<open>displayFileName.replace(/\.(md|markdown)$/i, '')\<close>. The pattern is anchored at
  the end of the input, so a match is a whole remainder of the string; the
  engine takes the leftmost start position whose remainder matches and
  replaces it by the empty string. Without the \<open>u\<close> flag, \<open>i\<close> makes only an
  ASCII letter equal to its other case.
\<close>

definition toLowerAscii :: "char \<Rightarrow> char" where
  "toLowerAscii c =
     (let n = (of_char c :: nat) in if 65 \<le> n \<and> n \<le> 90 then char_of (n + 32) else c)"

definition matches_md_suffix :: "string \<Rightarrow> bool" where
  "matches_md_suffix r =
     (map toLowerAscii r = ''.md'' \<or> map toLowerAscii r = ''.markdown'')"

fun replace_md_suffix :: "string \<Rightarrow> string" where
  "replace_md_suffix [] = []"
| "replace_md_suffix (c # cs) =
     (if matches_md_suffix (c # cs) then [] else c # replace_md_suffix cs)"

definition openFileDialog :: "app_state \<Rightarrow> app_state \<times> request list" where
  "openFileDialog a = (a\<lparr>saveStatus := Some ''Opening file dialog...''\<rparr>, [OpenFileDialog])"

definition saveFileDialog :: "app_state \<Rightarrow> app_state \<times> request list" where
  "saveFileDialog a =
     (a\<lparr>saveStatus := Some ''Saving...''\<rparr>,
      [if truthy (fileName a)
       then OverwriteFileRequest (markedText a) (the (fileName a))
       else SaveFileRequest (markedText a) (displayFileName a)])"

definition exportHtmlDialog :: "app_state \<Rightarrow> js_error + app_state \<times> request list" where
  "exportHtmlDialog a =
     (case displayFileName a of
        None \<Rightarrow> Inl TypeError
      | Some name \<Rightarrow>
          (let defaultExportName = replace_md_suffix name @ ''.html'' in
           Inr (a\<lparr>saveStatus := Some ''Exporting HTML...''\<rparr>,
                [SaveFileRequest (htmlMarkup a) (Some defaultExportName)])))"

definition handleNewWindow :: "app_state \<Rightarrow> app_state \<times> request list" where
  "handleNewWindow a =
     (a\<lparr>saveStatus := Some ''Opening new editor window...''\<rparr>, [NewWindowRequest])"

definition handleFileContent :: "string \<Rightarrow> string \<Rightarrow> string \<Rightarrow> app_state \<Rightarrow> app_state" where
  \<open>handleFileContent content receivedDisplayFileName fullPath a =
     a\<lparr>markedText := content,
       fileName := Some fullPath,
       displayFileName := Some receivedDisplayFileName,
       saveStatus := Some (''File "'' @ receivedDisplayFileName @ ''" loaded.'')\<rparr>\<close>

definition handleSaveStatus ::
  "string \<Rightarrow> string option \<Rightarrow> string option \<Rightarrow> app_state \<Rightarrow> app_state" where
  "handleSaveStatus status receivedFullPath receivedDisplayFileName a =
     (if truthy receivedFullPath
      then a\<lparr>saveStatus := Some status,
             fileName := receivedFullPath,
             displayFileName := receivedDisplayFileName\<rparr>
      else a\<lparr>saveStatus := Some status\<rparr>)"

definition clearEditor :: "app_state \<Rightarrow> app_state" where
  "clearEditor a =
     a\<lparr>markedText := defaultMarkdown, fileName := None,
       displayFileName := Some ''Untitled.md'', saveStatus := Some ''Editor reset.''\<rparr>"

text \<open>The listeners the surface attaches through the preload API, by channel.\<close>

fun ipcRenderer_on :: "message \<Rightarrow> app_state \<Rightarrow> js_error + app_state \<times> request list" where
  "ipcRenderer_on (FileContentReady content displayName fullPath) a =
     Inr (handleFileContent content displayName fullPath a, [])"
| "ipcRenderer_on (SaveStatus status fullPath displayName) a =
     Inr (handleSaveStatus status fullPath displayName a, [])"
| "ipcRenderer_on MenuOpenFile a = Inr (openFileDialog a)"
| "ipcRenderer_on MenuSaveFile a = Inr (saveFileDialog a)"
| "ipcRenderer_on MenuExportHtml a = exportHtmlDialog a"

subsection \<open>The windows together\<close>










subsection \<open>A sample run\<close>

text \<open>
  A runtime used to evaluate the model on concrete inputs. Window object 1 has
  \<open>webContents\<close> 7 and window object 2 has \<open>webContents\<close> 8; any other sender
  resolves to no window. The user picks \<open>/home/u/a.md\<close> in the open dialog and
  \<open>/home/u/b.md\<close> in the save dialog. Only \<open>/home/u/a.md\<close> can be read, and
  writing below \<open>/root\<close> is refused.
\<close>

definition example_runtime :: electron where
  "example_runtime =
     \<lparr>fromWebContents =
        (\<lambda>sender. if sender = 7 then Some 1 else if sender = 8 then Some 2 else None),
      showOpenDialogSync = Some [''/home/u/a.md''],
      showSaveDialogSync = Some ''/home/u/b.md'',
      readFile =
        (\<lambda>path. if path = ''/home/u/a.md'' then Inr ''# Title''
                else Inl ''ENOENT: no such file or directory''),
      writeFile =
        (\<lambda>path content. if take 6 path = ''/root/'' then Some ''EACCES: permission denied''
                        else None)\<rparr>"




section \<open>Properties\<close>

subsection \<open>Auxiliary facts\<close>

lemmas main_defs = getFileFromUser_def openFile_def openFile_callback_def
  saveFileToUser_def saveFileToUser_callback_def overwriteFile_def overwriteFile_callback_def
  createWindow_def

lemma basename_no_sep: "CHR ''/'' \<notin> set (basename p)"
proof -
  have "\<forall>c \<in> set (takeWhile (\<lambda>c. c \<noteq> CHR ''/'') xs). c \<noteq> CHR ''/''" for xs :: string
    by (auto dest: set_takeWhileD)
  then show ?thesis unfolding basename_def by auto
qed

text \<open>The base name really is the final segment: the path is some prefix that is
  empty or ends in a separator, then the base name, then separators only.\<close>

lemma basename_segment:
  "\<exists>pre post. p = pre @ basename p @ post \<and> set post \<subseteq> {CHR ''/''}
      \<and> (pre = [] \<or> last pre = CHR ''/'')"
proof -
  let ?sl = "\<lambda>c. c = CHR ''/''"
  let ?ns = "\<lambda>c. c \<noteq> CHR ''/''"
  define q where "q = dropWhile ?sl (rev p)"
  define post where "post = rev (takeWhile ?sl (rev p))"
  define pre where "pre = rev (dropWhile ?ns q)"
  have 1: "rev p = takeWhile ?sl (rev p) @ q" by (simp add: q_def)
  have 2: "q = takeWhile ?ns q @ dropWhile ?ns q" by simp
  have "rev p = rev post @ rev (basename p) @ rev pre"
    using 1 2 by (simp add: post_def pre_def basename_def q_def)
  then have "rev (rev p) = rev (rev post @ rev (basename p) @ rev pre)" by simp
  then have d: "p = pre @ basename p @ post" by simp
  have s: "set post \<subseteq> {CHR ''/''}"
    by (auto simp: post_def dest: set_takeWhileD)
  have l: "pre = [] \<or> last pre = CHR ''/''"
  proof (cases "dropWhile ?ns q")
    case Nil
    then show ?thesis by (simp add: pre_def)
  next
    case (Cons c cs)
    then have "\<not> ?ns c" using hd_dropWhile[of ?ns q] by auto
    then show ?thesis using Cons by (simp add: pre_def)
  qed
  from d s l show ?thesis by blast
qed

lemma basename_example: "basename ''/home/u/a.md'' = ''a.md'' \<and> basename ''/home/u/b.md'' = ''b.md''"
  by (simp add: basename_def)















subsection \<open>Claims\<close>

text \<open>
  C1. Whatever request a window sends, every message the main process emits
  while serving it goes to the window resolved from the sender of that request.
  A different window W2 receives nothing: there is no broadcast.
\<close>

theorem events_reach_only_requesting_window:
  assumes "fromWebContents rt sender = Some w1" and "w2 \<noteq> w1"
  shows "sent_to w2 (snd (ipcMain_on rt sender req s)) = []
       \<and> (Send w m \<in> set (snd (ipcMain_on rt sender req s)) \<longrightarrow> w = w1)"
  using assms
  by (cases req) (auto simp: main_defs Let_def split: option.splits list.splits sum.splits)

theorem events_reach_only_requesting_window_witness:
  "fromWebContents example_runtime 7 = Some 1 \<and> (2::nat) \<noteq> 1
   \<and> sent_to 2 (snd (ipcMain_on example_runtime 7 OpenFileDialog initial_main)) = []
   \<and> Send 1 (FileContentReady ''# Title'' ''a.md'' ''/home/u/a.md'')
        \<in> set (snd (ipcMain_on example_runtime 7 OpenFileDialog initial_main))
   \<and> sent_to 1 (snd (ipcMain_on example_runtime 7 OpenFileDialog initial_main))
        = [FileContentReady ''# Title'' ''a.md'' ''/home/u/a.md'']"
  using events_reach_only_requesting_window
          [where rt = example_runtime and sender = 7 and ?w1.0 = 1 and ?w2.0 = 2
             and req = OpenFileDialog and s = initial_main and w = 1
             and m = "FileContentReady ''# Title'' ''a.md'' ''/home/u/a.md''"]
        basename_example
  by (simp add: example_runtime_def main_defs Let_def)

text \<open>
  C2. The surface routes the save command. With a known full path (\<open>fileName\<close>,
  set by a successful open or save-as) it sends an overwrite request for exactly
  that path, and serving an overwrite request never shows a dialog. Without a
  known path it sends a save-as request carrying the current display name,
  and serving a save-as request always starts with the dialog, whatever the
  registry holds.
  In particular: after the main process has opened \<open>p\<close> for a window and the
  surface has received the content, editing the text and saving sends an
  overwrite request for \<open>p\<close>, whose first effect is the write to \<open>p\<close>.
\<close>

theorem save_routed_by_surface:
  "(truthy (fileName a) \<longrightarrow>
      snd (saveFileDialog a) = [OverwriteFileRequest (markedText a) (the (fileName a))])
  \<and> (\<not> truthy (fileName b) \<longrightarrow>
      snd (saveFileDialog b) = [SaveFileRequest (markedText b) (displayFileName b)])
  \<and> filter is_dialog (snd (ipcMain_on rt' sender (OverwriteFileRequest t p) s1)) = []
  \<and> (fromWebContents rt' sender = Some w \<longrightarrow>
      hd (snd (ipcMain_on rt' sender (SaveFileRequest t n) s1)) = ShowSaveDialog w n)
  \<and> (truthy (Some p) \<longrightarrow> fileName (handleSaveStatus status (Some p) d c) = Some p)
  \<and> (fromWebContents rt sender = Some w \<and> fromWebContents rt' sender = Some w
       \<and> showOpenDialogSync rt = Some (p # ps) \<and> p \<noteq> [] \<and> readFile rt p = Inr data \<longrightarrow>
      sent_to w (snd (ipcMain_on rt sender OpenFileDialog s))
           = [FileContentReady data (basename p) p]
      \<and> windowFilePaths (fst (ipcMain_on rt sender OpenFileDialog s)) w = Some p
      \<and> ipcRenderer_on (FileContentReady data (basename p) p) c
           = Inr (handleFileContent data (basename p) p c, [])
      \<and> snd (saveFileDialog ((handleFileContent data (basename p) p c)\<lparr>markedText := t\<rparr>))
           = [OverwriteFileRequest t p]
      \<and> hd (snd (ipcMain_on rt' sender (OverwriteFileRequest t p) s1)) = FsWriteFile p t)"
  by (auto simp add: main_defs Let_def saveFileDialog_def handleFileContent_def
        handleSaveStatus_def split: option.splits)

theorem save_routed_by_surface_witness:
  "snd (saveFileDialog initial_app) = [SaveFileRequest defaultMarkdown (Some ''Untitled.md'')]
   \<and> snd (saveFileDialog (handleFileContent ''# Title'' ''a.md'' ''/home/u/a.md'' initial_app))
        = [OverwriteFileRequest ''# Title'' ''/home/u/a.md'']
   \<and> fileName (handleSaveStatus ''saved'' (Some ''/home/u/a.md'') (Some ''a.md'') initial_app)
        = Some ''/home/u/a.md''
   \<and> snd (saveFileDialog
            ((handleFileContent ''# Title'' ''a.md'' ''/home/u/a.md'' initial_app)
               \<lparr>markedText := ''# Edited''\<rparr>))
        = [OverwriteFileRequest ''# Edited'' ''/home/u/a.md'']
   \<and> hd (snd (ipcMain_on example_runtime 7
                 (OverwriteFileRequest ''# Edited'' ''/home/u/a.md'') initial_main))
        = FsWriteFile ''/home/u/a.md'' ''# Edited''
   \<and> hd (snd (ipcMain_on example_runtime 7
                 (SaveFileRequest ''# Edited'' (Some ''Untitled.md'')) initial_main))
        = ShowSaveDialog 1 (Some ''Untitled.md'')"
  using save_routed_by_surface
          [where a = "handleFileContent ''# Title'' ''a.md'' ''/home/u/a.md'' initial_app"
             and b = initial_app and c = initial_app and status = "''saved''"
             and d = "Some ''a.md''" and s = initial_main
             and rt = example_runtime and rt' = example_runtime
             and sender = 7 and w = 1 and p = "''/home/u/a.md''" and ps = "[]"
             and data = "''# Title''" and t = "''# Edited''" and ?s1.0 = initial_main
             and n = "Some ''Untitled.md''"]
        basename_example
  by (simp add: example_runtime_def initial_app_def handleFileContent_def)




text \<open>
  C4. When the user chooses a path in the save-as dialog and the write succeeds,
  the requesting window's entry in the registry becomes the chosen path, and
  the only message emitted is one status to that window, carrying the success
  text, the chosen path and its display name. The display name is the base name
  of the path: it holds no separator and is the path's final segment.
\<close>

theorem save_as_success_binds_and_reports:
  assumes "fromWebContents rt sender = Some w"
    and "showSaveDialogSync rt = Some p" and "p \<noteq> []"
    and "writeFile rt p content = None"
  shows \<open>ipcMain_on rt sender (SaveFileRequest content name) s =
          (s\<lparr>windowFilePaths := (windowFilePaths s)(w \<mapsto> p)\<rparr>,
           [ShowSaveDialog w name, FsWriteFile p content,
            Send w (SaveStatus (''File successfully saved as "'' @ basename p @ ''"'')
                      (Some p) (Some (basename p)))])
        \<and> CHR ''/'' \<notin> set (basename p)
        \<and> (\<exists>pre post. p = pre @ basename p @ post \<and> set post \<subseteq> {CHR ''/''}
              \<and> (pre = [] \<or> last pre = CHR ''/''))\<close>
  using assms basename_no_sep[of p] basename_segment[of p]
  by (simp add: main_defs Let_def)

theorem save_as_success_binds_and_reports_witness:
  \<open>fromWebContents example_runtime 7 = Some 1
   \<and> showSaveDialogSync example_runtime = Some ''/home/u/b.md''
   \<and> writeFile example_runtime ''/home/u/b.md'' ''# Title'' = None
   \<and> ipcMain_on example_runtime 7 (SaveFileRequest ''# Title'' (Some ''Untitled.md'')) initial_main =
       (initial_main\<lparr>windowFilePaths := (windowFilePaths initial_main)(1 \<mapsto> ''/home/u/b.md'')\<rparr>,
        [ShowSaveDialog 1 (Some ''Untitled.md''), FsWriteFile ''/home/u/b.md'' ''# Title'',
         Send 1 (SaveStatus ''File successfully saved as "b.md"''
                   (Some ''/home/u/b.md'') (Some ''b.md''))])\<close>
  using save_as_success_binds_and_reports
          [where rt = example_runtime and sender = 7 and w = 1 and p = "''/home/u/b.md''"
             and content = "''# Title''" and name = "Some ''Untitled.md''" and s = initial_main]
        basename_example
  by (simp add: example_runtime_def)

text \<open>
  C5. When the user cancels the save-as dialog, the state of the main process
  (every window's entry in the registry) is unchanged, no file is written, and
  exactly one status is emitted, to the requesting window, with the text
  "Save As operation cancelled." and neither path nor display name.
\<close>

theorem save_as_cancel_leaves_binding:
  assumes "fromWebContents rt sender = Some w" and "\<not> truthy (showSaveDialogSync rt)"
  shows "ipcMain_on rt sender (SaveFileRequest content name) s =
          (s, [ShowSaveDialog w name,
               Send w (SaveStatus ''Save As operation cancelled.'' None None)])
       \<and> filter is_write (snd (ipcMain_on rt sender (SaveFileRequest content name) s)) = []
       \<and> sent_to w (snd (ipcMain_on rt sender (SaveFileRequest content name) s))
            = [SaveStatus ''Save As operation cancelled.'' None None]"
  using assms by (simp add: main_defs)

theorem save_as_cancel_leaves_binding_witness:
  "fromWebContents example_runtime 7 = Some 1
   \<and> \<not> truthy (showSaveDialogSync (example_runtime\<lparr>showSaveDialogSync := None\<rparr>))
   \<and> ipcMain_on (example_runtime\<lparr>showSaveDialogSync := None\<rparr>) 7
        (SaveFileRequest ''# Title'' (Some ''Untitled.md'')) initial_main =
       (initial_main, [ShowSaveDialog 1 (Some ''Untitled.md''),
                       Send 1 (SaveStatus ''Save As operation cancelled.'' None None)])"
  using save_as_cancel_leaves_binding
          [where rt = "example_runtime\<lparr>showSaveDialogSync := None\<rparr>" and sender = 7 and w = 1
             and content = "''# Title''" and name = "Some ''Untitled.md''" and s = initial_main]
  by (simp add: example_runtime_def)

text \<open>
  C6. When reading the chosen file fails, the main process state (every window's
  entry in the registry) is unchanged and the only message is one status to the
  requesting window, whose text is "Error loading file: " followed by the
  error's message. Whatever the outcome, a content-ready message is among the
  effects only if the read succeeded, and then it goes to the requesting window.
\<close>

theorem read_failure_reported_to_origin:
  assumes "fromWebContents rt sender = Some w" and "showOpenDialogSync rt = Some (p # ps)"
  shows "(readFile rt p = Inl err \<longrightarrow>
            ipcMain_on rt sender OpenFileDialog s =
              (s, [ShowOpenDialog w, FsReadFile p, ConsoleError ''Failed to read file:'' err,
                   Send w (SaveStatus (''Error loading file: '' @ err) None None)]))
       \<and> (Send w' (FileContentReady d n fp) \<in> set (snd (ipcMain_on rt sender OpenFileDialog s))
            \<longrightarrow> readFile rt p = Inr d \<and> w' = w)"
  using assms by (auto simp add: main_defs Let_def split: sum.splits)

theorem read_failure_reported_to_origin_witness:
  "fromWebContents example_runtime 7 = Some 1
   \<and> readFile example_runtime ''/home/u/gone.md'' = Inl ''ENOENT: no such file or directory''
   \<and> ipcMain_on (example_runtime\<lparr>showOpenDialogSync := Some [''/home/u/gone.md'']\<rparr>) 7
        OpenFileDialog initial_main =
       (initial_main,
        [ShowOpenDialog 1, FsReadFile ''/home/u/gone.md'',
         ConsoleError ''Failed to read file:'' ''ENOENT: no such file or directory'',
         Send 1 (SaveStatus ''Error loading file: ENOENT: no such file or directory'' None None)])
   \<and> Send 1 (FileContentReady ''# Title'' ''a.md'' ''/home/u/a.md'')
        \<in> set (snd (ipcMain_on example_runtime 7 OpenFileDialog initial_main))
   \<and> readFile example_runtime ''/home/u/a.md'' = Inr ''# Title''"
  using read_failure_reported_to_origin
          [where rt = "example_runtime\<lparr>showOpenDialogSync := Some [''/home/u/gone.md'']\<rparr>"
             and sender = 7 and w = 1 and p = "''/home/u/gone.md''" and ps = "[]"
             and err = "''ENOENT: no such file or directory''" and s = initial_main]
        read_failure_reported_to_origin
          [where rt = example_runtime and sender = 7 and w = 1 and p = "''/home/u/a.md''"
             and ps = "[]" and s = initial_main and w' = 1 and d = "''# Title''"
             and n = "''a.md''" and fp = "''/home/u/a.md''"]
        basename_example
  by (simp add: example_runtime_def main_defs Let_def)

text \<open>
  C7. When an overwrite succeeds, the only message is one status to the
  requesting window. Its text names the base name of the target path, which
  holds no separator and so differs from any path that has one, and the message
  carries neither path nor display name.
\<close>

theorem overwrite_success_reports_basename:
  assumes "fromWebContents rt sender = Some w" and "writeFile rt p content = None"
  shows \<open>ipcMain_on rt sender (OverwriteFileRequest content p) s =
          (s, [FsWriteFile p content,
               Send w (SaveStatus (''File successfully saved to "'' @ basename p @ ''"'')
                         None None)])
        \<and> CHR ''/'' \<notin> set (basename p)
        \<and> (CHR ''/'' \<in> set p \<longrightarrow> basename p \<noteq> p)\<close>
  using assms basename_no_sep[of p] by (auto simp add: main_defs Let_def)

theorem overwrite_success_reports_basename_witness:
  \<open>fromWebContents example_runtime 7 = Some 1
   \<and> writeFile example_runtime ''/home/u/a.md'' ''# Edited'' = None
   \<and> CHR ''/'' \<in> set ''/home/u/a.md''
   \<and> basename ''/home/u/a.md'' \<noteq> ''/home/u/a.md''
   \<and> ipcMain_on example_runtime 7 (OverwriteFileRequest ''# Edited'' ''/home/u/a.md'') initial_main =
       (initial_main,
        [FsWriteFile ''/home/u/a.md'' ''# Edited'',
         Send 1 (SaveStatus ''File successfully saved to "a.md"'' None None)])\<close>
  using overwrite_success_reports_basename
          [where rt = example_runtime and sender = 7 and w = 1 and p = "''/home/u/a.md''"
             and content = "''# Edited''" and s = initial_main]
        basename_example
  by (simp add: example_runtime_def)




text \<open>
  C9. An overwrite request is served without looking at the registry. The
  main process state is returned unchanged whether the write succeeds or fails,
  the first effect is the write to the path the surface supplied, and the
  effects are the same from any other state, so the supplied path is never
  compared with the window's entry.
\<close>

theorem overwrite_ignores_registry:
  assumes "fromWebContents rt sender = Some w"
  shows "fst (ipcMain_on rt sender (OverwriteFileRequest content p) s) = s
       \<and> hd (snd (ipcMain_on rt sender (OverwriteFileRequest content p) s))
            = FsWriteFile p content
       \<and> snd (ipcMain_on rt sender (OverwriteFileRequest content p) s)
            = snd (ipcMain_on rt sender (OverwriteFileRequest content p) s')"
  using assms by (simp add: main_defs Let_def split: option.splits)

theorem overwrite_ignores_registry_witness:
  \<open>fromWebContents example_runtime 7 = Some 1
   \<and> windowFilePaths
        (initial_main\<lparr>windowFilePaths := (windowFilePaths initial_main)(1 \<mapsto> ''/home/u/a.md'')\<rparr>) 1
       = Some ''/home/u/a.md''
   \<and> ipcMain_on example_runtime 7 (OverwriteFileRequest ''x'' ''/home/u/other.md'')
        (initial_main\<lparr>windowFilePaths := (windowFilePaths initial_main)(1 \<mapsto> ''/home/u/a.md'')\<rparr>)
      = (initial_main\<lparr>windowFilePaths := (windowFilePaths initial_main)(1 \<mapsto> ''/home/u/a.md'')\<rparr>,
         [FsWriteFile ''/home/u/other.md'' ''x'',
          Send 1 (SaveStatus ''File successfully saved to "other.md"'' None None)])
   \<and> fst (ipcMain_on example_runtime 7 (OverwriteFileRequest ''x'' ''/root/other.md'')
        (initial_main\<lparr>windowFilePaths := (windowFilePaths initial_main)(1 \<mapsto> ''/home/u/a.md'')\<rparr>))
      = initial_main\<lparr>windowFilePaths := (windowFilePaths initial_main)(1 \<mapsto> ''/home/u/a.md'')\<rparr>\<close>
  using overwrite_ignores_registry
          [where rt = example_runtime and sender = 7 and w = 1 and p = "''/root/other.md''"
             and content = "''x''"
             and s = "initial_main\<lparr>windowFilePaths :=
                        (windowFilePaths initial_main)(1 \<mapsto> ''/home/u/a.md'')\<rparr>"]
  by (simp add: example_runtime_def main_defs Let_def basename_def)

text \<open>
  C10. When the sender of an open-dialog, save-as or overwrite request resolves
  to no window, the request is dropped: the state is returned unchanged and
  there is no effect at all, so no dialog, no read, no write and no message.
\<close>

theorem unresolved_sender_dropped:
  assumes "fromWebContents rt sender = None"
  shows "ipcMain_on rt sender OpenFileDialog s = (s, [])
       \<and> ipcMain_on rt sender (SaveFileRequest content name) s = (s, [])
       \<and> ipcMain_on rt sender (OverwriteFileRequest content fullPath) s = (s, [])"
  using assms by (simp add: main_defs)

theorem unresolved_sender_dropped_witness:
  "fromWebContents example_runtime 9 = None
   \<and> ipcMain_on example_runtime 9 OpenFileDialog initial_main = (initial_main, [])
   \<and> ipcMain_on example_runtime 9 (SaveFileRequest ''x'' (Some ''Untitled.md'')) initial_main
        = (initial_main, [])
   \<and> ipcMain_on example_runtime 9 (OverwriteFileRequest ''x'' ''/home/u/a.md'') initial_main
        = (initial_main, [])"
  using unresolved_sender_dropped
          [where rt = example_runtime and sender = 9 and s = initial_main and content = "''x''"
             and name = "Some ''Untitled.md''" and fullPath = "''/home/u/a.md''"]
  by (simp add: example_runtime_def)

end
